theory Spec2Isabelle
  imports Complex_Main "HOL-Library.Sublist"
begin

section \<open>Python values and exceptions\<close>

text \<open>
  The package computes with Python floats and numpy float arrays; both are modelled by
  the reals, so rounding is not part of the model.  A parameter annotated
  \<^verbatim>\<open>Union[float, np.ndarray]\<close> is a \<open>pyval\<close>: a scalar or a one-dimensional
  array, on which arithmetic with a scalar acts elementwise.
\<close>

datatype pyval = Float real | NdArray "real list"

datatype exn =
    ValueError string
  | TypeError
  | KeyError
  | IndexError
  | AttributeError
  | ZeroDivisionError
  | OSError

fun elementwise :: "(real \<Rightarrow> real) \<Rightarrow> pyval \<Rightarrow> pyval" where
  "elementwise f (Float v) = Float (f v)"
| "elementwise f (NdArray vs) = NdArray (map f vs)"

text \<open>Division of two Python floats raises on a zero divisor.\<close>

definition py_div :: "real \<Rightarrow> real \<Rightarrow> exn + real" where
  "py_div a b = (if b = 0 then Inl ZeroDivisionError else Inr (a / b))"

section \<open>spcal/particle.py\<close>

text \<open>
  \<^verbatim>\<open>particle_mass(signal, dwell, efficiency, flowrate, response_factor, mass_fraction=1.0)\<close>:
  \<^verbatim>\<open>return signal * (dwell * flowrate * efficiency / (response_factor * mass_fraction))\<close>.
  The factor is a quotient of Python floats, computed before the array is touched.
\<close>

definition particle_mass :: "pyval \<Rightarrow> real \<Rightarrow> real \<Rightarrow> real \<Rightarrow> real \<Rightarrow> real \<Rightarrow> exn + pyval" where
  "particle_mass signal dwell efficiency flowrate response_factor mass_fraction =
     (case py_div (dwell * flowrate * efficiency) (response_factor * mass_fraction) of
        Inl e \<Rightarrow> Inl e
      | Inr k \<Rightarrow> Inr (elementwise (\<lambda>s. s * k) signal))"

text \<open>The call without \<^verbatim>\<open>mass_fraction\<close> takes the default \<^verbatim>\<open>1.0\<close>.\<close>

definition particle_mass_default :: "pyval \<Rightarrow> real \<Rightarrow> real \<Rightarrow> real \<Rightarrow> real \<Rightarrow> exn + pyval" where
  "particle_mass_default signal dwell efficiency flowrate response_factor =
     particle_mass signal dwell efficiency flowrate response_factor 1"

text \<open>
  The formula as the specification words it, for comparison with the code:
  signal * dwell * flowrate * efficiency * mass_fraction / response_factor.
\<close>

definition particle_mass_as_specified :: "pyval \<Rightarrow> real \<Rightarrow> real \<Rightarrow> real \<Rightarrow> real \<Rightarrow> real \<Rightarrow> pyval" where
  "particle_mass_as_specified signal dwell efficiency flowrate response_factor mass_fraction =
     elementwise (\<lambda>s. s * dwell * flowrate * efficiency * mass_fraction / response_factor) signal"

text \<open>
  \<^verbatim>\<open>particle_size(masses, density)\<close>:
  \<^verbatim>\<open>return np.cbrt(6.0 / (np.pi * density) * masses)\<close>.  \<^verbatim>\<open>np.cbrt\<close> is the real cube
  root, \<open>root 3\<close>.
\<close>

definition particle_size :: "pyval \<Rightarrow> real \<Rightarrow> exn + pyval" where
  "particle_size masses density =
     (case py_div 6 (pi * density) of
        Inl e \<Rightarrow> Inl e
      | Inr k \<Rightarrow> Inr (elementwise (\<lambda>m. root 3 (k * m)) masses))"

text \<open>
  \<^verbatim>\<open>reference_particle_mass(density, diameter)\<close>:
  \<^verbatim>\<open>return 4.0 / 3.0 * np.pi * (diameter / 2.0) ** 3 * density\<close>.
\<close>

definition reference_particle_mass :: "real \<Rightarrow> real \<Rightarrow> real" where
  "reference_particle_mass density diameter = 4 / 3 * pi * (diameter / 2) ^ 3 * density"

text \<open>
  \<^verbatim>\<open>particle_number_concentration(count, efficiency, flowrate, time)\<close>:
  \<^verbatim>\<open>return count / (efficiency * flowrate * time)\<close>, with \<^verbatim>\<open>count\<close> a Python int.
\<close>

definition particle_number_concentration :: "nat \<Rightarrow> real \<Rightarrow> real \<Rightarrow> real \<Rightarrow> exn + real" where
  "particle_number_concentration n efficiency flowrate time =
     py_div (real n) (efficiency * flowrate * time)"

text \<open>
  \<^verbatim>\<open>particle_total_concentration(masses, efficiency, flowrate, time)\<close>:
  \<^verbatim>\<open>return np.sum(masses) / (efficiency * flowrate * time)\<close>.  \<^verbatim>\<open>np.sum\<close> gives a numpy
  float, whose division by zero raises nothing and gives an infinity or a nan: \<open>None\<close>
  stands for these.
\<close>

fun np_sum :: "pyval \<Rightarrow> real" where
  "np_sum (Float v) = v"
| "np_sum (NdArray vs) = sum_list vs"

definition particle_total_concentration :: "pyval \<Rightarrow> real \<Rightarrow> real \<Rightarrow> real \<Rightarrow> real option" where
  "particle_total_concentration masses efficiency flowrate time =
     (if efficiency * flowrate * time = 0 then None
      else Some (np_sum masses / (efficiency * flowrate * time)))"

section \<open>nanopart/util.py\<close>

subsection \<open>The scipy.ndimage helpers on one-dimensional arrays\<close>

text \<open>
  \<^verbatim>\<open>ndi.label(input)\<close> numbers the maximal runs of true samples 1, 2, ... from left to
  right, gives every false sample the label 0, and returns the labels with the number of
  runs.  \<open>label_from prev n\<close> is the scan: \<open>prev\<close> says whether the sample before was
  true, \<open>n\<close> is the number of runs opened so far.
\<close>

fun label_from :: "bool \<Rightarrow> nat \<Rightarrow> bool list \<Rightarrow> nat list" where
  "label_from prev n [] = []"
| "label_from prev n (b # bs) =
     (if b then (if prev then n # label_from True n bs
                 else Suc n # label_from True (Suc n) bs)
      else 0 # label_from False n bs)"

definition ndi_label :: "bool list \<Rightarrow> nat list \<times> nat" where
  "ndi_label input = (let labels = label_from False 0 input in (labels, foldr max labels 0))"

text \<open>\<^verbatim>\<open>y[labels == k]\<close>: the samples that carry the label \<open>k\<close>.\<close>

definition labelled :: "real list \<Rightarrow> nat list \<Rightarrow> nat \<Rightarrow> real list" where
  "labelled y labels k = map fst (filter (\<lambda>(v, l). l = k) (zip y labels))"

text \<open>
  \<^verbatim>\<open>ndi.maximum(y, labels=labels, index=idx)\<close> and \<^verbatim>\<open>ndi.sum(y, labels=labels, index=idx)\<close>,
  for one entry \<open>k\<close> of \<^verbatim>\<open>idx\<close>.  The function below only asks for labels that occur.
\<close>

definition ndi_maximum :: "real list \<Rightarrow> nat list \<Rightarrow> nat \<Rightarrow> real" where
  "ndi_maximum y labels k = (case labelled y labels k of [] \<Rightarrow> 0 | v # vs \<Rightarrow> fold max vs v)"

definition ndi_sum :: "real list \<Rightarrow> nat list \<Rightarrow> nat \<Rightarrow> real" where
  "ndi_sum y labels k = sum_list (labelled y labels k)"

subsection \<open>accumulate_detections_scipy\<close>

text \<open>
  \<^verbatim>\<open>
  def accumulate_detections_scipy(y, limit_detection, limit_accumulation):
      labels, n = ndi.label(y > limit_accumulation)
      idx = np.arange(1, n)
      if idx.size == 0:
          return np.array([]), np.array([])
      idx = idx[ndi.maximum(y, labels=labels, index=idx) > limit_detection]
      sums = ndi.sum(y, labels=labels, index=idx)
      labels[~np.isin(labels, idx)] = 0
      return sums, labels
  \<close>
  Both limits are floats.  The critical value \<open>lc\<close> of the specification is
  \<^verbatim>\<open>limit_accumulation\<close>, its detection limit \<open>ld\<close> is \<^verbatim>\<open>limit_detection\<close>.  The function
  has no \<^verbatim>\<open>raise\<close> and returns two arrays.  \<^verbatim>\<open>np.arange(1, n)\<close> is \<open>[1..<n]\<close>: it
  stops before \<open>n\<close>.
\<close>

definition accumulate_detections_scipy :: "real list \<Rightarrow> real \<Rightarrow> real \<Rightarrow> real list \<times> nat list" where
  "accumulate_detections_scipy y limit_detection limit_accumulation =
     (let (labels, n) = ndi_label (map (\<lambda>v. v > limit_accumulation) y);
          idx = [1..<n]
      in if idx = [] then ([], [])
         else
           let idx = filter (\<lambda>k. ndi_maximum y labels k > limit_detection) idx;
               totals = map (ndi_sum y labels) idx;
               labels = map (\<lambda>l. if l \<in> set idx then l else 0) labels
           in (totals, labels))"

text \<open>The signal of \<^verbatim>\<open>test_accumulate_detections\<close> in tests/test_nanopart.py.\<close>

definition test_signal :: "real list" where
  "test_signal = [2, 1, 2, 2, 1, 0, 0, 1, 0, 2]"

subsection \<open>The regions output\<close>

text \<open>
  Modelled from the spec: the \<^verbatim>\<open>regions\<close> output of accumulate, "one row of inclusive
  [start, end] per confirmed region", which \<^verbatim>\<open>accumulate_detections_scipy\<close> does not
  return.  The rows are read off the labels that the function does return: there is one
  row per label that occurs in them, in increasing order of the label, and the row of a
  label holds the index of the first sample and the index of the last sample that carry
  it.
\<close>

definition region_row :: "nat list \<Rightarrow> nat \<Rightarrow> nat \<times> nat" where
  "region_row labels k =
     (let start = length (takeWhile (\<lambda>l. l \<noteq> k) labels);
          final = length labels - 1 - length (takeWhile (\<lambda>l. l \<noteq> k) (rev labels))
      in (start, final))"

definition regions_of :: "nat list \<Rightarrow> (nat \<times> nat) list" where
  "regions_of labels = map (region_row labels) (sort (remdups (filter (\<lambda>l. l \<noteq> 0) labels)))"


subsection \<open>poisson_limits\<close>

text \<open>
  \<^verbatim>\<open>
  def poisson_limits(ub, epsilon=0.5):
      if ub < 5.0:
          ub += epsilon
      return 2.33 * np.sqrt(ub), 2.71 + 4.65 * np.sqrt(ub)
  \<close>
  The constants are those of the error rates alpha = beta = 0.05.
\<close>

definition poisson_limits :: "real \<Rightarrow> real \<Rightarrow> real \<times> real" where
  "poisson_limits ub epsilon =
     (let ub = (if ub < 5.0 then ub + epsilon else ub)
      in (2.33 * sqrt ub, 2.71 + 4.65 * sqrt ub))"

text \<open>The call \<^verbatim>\<open>poisson_limits(mean)\<close>, with the default \<^verbatim>\<open>epsilon=0.5\<close>.\<close>

definition poisson_limits_default :: "real \<Rightarrow> real \<times> real" where
  "poisson_limits_default ub = poisson_limits ub 0.5"

subsection \<open>reference_particle_mass\<close>

text \<open>
  The function of the same name in nanopart/util.py:
  \<^verbatim>\<open>return 4.0 / 3.0 * np.pi * diameter ** 3 * density\<close>.  Its \<^verbatim>\<open>particle_size\<close> is that of
  spcal/particle.py.
\<close>

definition nanopart_reference_particle_mass :: "real \<Rightarrow> real \<Rightarrow> real" where
  "nanopart_reference_particle_mass density diameter = 4 / 3 * pi * diameter ^ 3 * density"

section \<open>spcal/calc.py\<close>

subsection \<open>numpy reductions and padding\<close>

text \<open>
  \<^verbatim>\<open>np.mean\<close>, \<^verbatim>\<open>np.std\<close> (the population standard deviation) and \<^verbatim>\<open>np.median\<close> of a
  non-empty array, \<^verbatim>\<open>np.cumsum\<close>, and \<^verbatim>\<open>np.around\<close> (half to even).
\<close>

definition np_mean :: "real list \<Rightarrow> real" where
  "np_mean xs = sum_list xs / real (length xs)"

definition np_std :: "real list \<Rightarrow> real" where
  "np_std xs = sqrt (np_mean (map (\<lambda>x. (x - np_mean xs)\<^sup>2) xs))"

definition np_median :: "real list \<Rightarrow> real" where
  "np_median xs =
     (let s = sort xs; n = length xs
      in if even n then (s ! (n div 2 - 1) + s ! (n div 2)) / 2 else s ! (n div 2))"

fun cumsum_from :: "real \<Rightarrow> real list \<Rightarrow> real list" where
  "cumsum_from acc [] = []"
| "cumsum_from acc (x # xs) = (acc + x) # cumsum_from (acc + x) xs"

definition np_cumsum :: "real list \<Rightarrow> real list" where
  "np_cumsum xs = cumsum_from 0 xs"

definition np_around :: "real \<Rightarrow> real" where
  "np_around x =
     (let f = floor x; d = x - of_int f
      in of_int (if d < 1 / 2 then f else if 1 / 2 < d then f + 1
                 else if even f then f else f + 1))"

text \<open>
  \<^verbatim>\<open>np.amin\<close> and \<^verbatim>\<open>np.amax\<close> raise ValueError on an array without elements.
\<close>

fun np_amin :: "real list \<Rightarrow> exn + real" where
  "np_amin [] = Inl (ValueError ''zero-size array to reduction operation minimum which has no identity'')"
| "np_amin (x # xs) = Inr (fold min xs x)"

fun np_amax :: "real list \<Rightarrow> exn + real" where
  "np_amax [] = Inl (ValueError ''zero-size array to reduction operation maximum which has no identity'')"
| "np_amax (x # xs) = Inr (fold max xs x)"

text \<open>
  \<^verbatim>\<open>np.pad(xs, [w, w], mode="reflect")\<close>: the array mirrored about its first and its last
  element, the edge elements not repeated; an array of one element is padded with that
  element.  \<open>reflect_index n k\<close> is the index read at the position \<open>k\<close> counted from the
  start of the unpadded array of length \<open>n\<close>.
\<close>

definition reflect_index :: "nat \<Rightarrow> int \<Rightarrow> nat" where
  "reflect_index n k =
     (if n = 1 then 0
      else let p = 2 * (int n - 1); r = k mod p
           in nat (if r < int n then r else p - r))"

definition np_pad_reflect :: "real list \<Rightarrow> nat \<Rightarrow> real list" where
  "np_pad_reflect xs w =
     map (\<lambda>j. xs ! reflect_index (length xs) (int j - int w)) [0..<length xs + 2 * w]"

subsection \<open>Rolling statistics\<close>

text \<open>
  The three functions return \<^verbatim>\<open>bn.move_*(x, n)[n - 1:]\<close> when the bottleneck package is
  found and compute the same windows with numpy otherwise; the model follows the numpy
  branches.
  \<^verbatim>\<open>
  def moving_mean(x, n):
      r = np.cumsum(x)
      r[n:] = r[n:] - r[:-n]
      return r[n - 1 :] / n
  \<close>
\<close>

definition moving_mean :: "real list \<Rightarrow> nat \<Rightarrow> real list" where
  "moving_mean x n =
     (let r = np_cumsum x;
          r = take n r @ map2 (-) (drop n r) (take (length r - n) r)
      in map (\<lambda>v. v / real n) (drop (n - 1) r))"

text \<open>
  \<^verbatim>\<open>
  def moving_median(x, n):
      r = np.empty(x.size - n + 1, x.dtype)
      sort = sorted(x[:n])
      m = n // 2
      m2 = m + n % 2 - 1
      for start in range(x.size - n):
          r[start] = sort[m] + sort[m2]
          end = start + n
          del sort[bisect_left(sort, x[start])]
          insort(sort, x[end])
      r[-1] = sort[m] + sort[m2]
      return r / 2.0
  \<close>
  \<open>median_windows\<close> is the loop with the last assignment: it goes through the pairs of
  the sample that leaves the window and the sample that enters it.  \<^verbatim>\<open>np.empty\<close> raises
  ValueError on a negative size, and \<^verbatim>\<open>r[-1]\<close> raises IndexError when \<open>r\<close> is empty.
\<close>

fun median_windows :: "nat \<Rightarrow> nat \<Rightarrow> real list \<Rightarrow> (real \<times> real) list \<Rightarrow> real list" where
  "median_windows m m2 srt [] = [srt ! m + srt ! m2]"
| "median_windows m m2 srt ((leaving, entering) # rest) =
     (srt ! m + srt ! m2) # median_windows m m2 (insort entering (remove1 leaving srt)) rest"

definition moving_median :: "real list \<Rightarrow> nat \<Rightarrow> exn + real list" where
  "moving_median x n =
     (if length x + 1 < n then Inl (ValueError ''negative dimensions are not allowed'')
      else if length x + 1 = n then Inl IndexError
      else
        let srt = sort (take n x);
            m = n div 2;
            m2 = m + n mod 2 - 1;
            r = median_windows m m2 srt (zip (take (length x - n) x) (drop n x))
        in Inr (map (\<lambda>v. v / 2) r))"

text \<open>
  \<^verbatim>\<open>
  def moving_std(x, n):
      sums = np.empty(x.size - n + 1)
      sqrs = np.empty(x.size - n + 1)
      tab = np.cumsum(x) / n
      sums[0] = tab[n - 1]
      sums[1:] = tab[n:] - tab[:-n]
      tab = np.cumsum(x * x) / n
      sqrs[0] = tab[n - 1]
      sqrs[1:] = tab[n:] - tab[:-n]
      return np.sqrt(sqrs - sums * sums)
  \<close>
\<close>

definition moving_std :: "real list \<Rightarrow> nat \<Rightarrow> exn + real list" where
  "moving_std x n =
     (if length x + 1 < n then Inl (ValueError ''negative dimensions are not allowed'')
      else if length x + 1 = n then Inl IndexError
      else
        let tab = map (\<lambda>v. v / real n) (np_cumsum x);
            means = tab ! (n - 1) # map2 (-) (drop n tab) (take (length tab - n) tab);
            tab = map (\<lambda>v. v / real n) (np_cumsum (map (\<lambda>v. v * v) x));
            sqrs = tab ! (n - 1) # map2 (-) (drop n tab) (take (length tab - n) tab)
        in Inr (map2 (\<lambda>q s. sqrt (q - s * s)) sqrs means))"

subsection \<open>calculate_limits\<close>

text \<open>\<^verbatim>\<open>sub in s\<close> on strings.\<close>

primrec str_in :: "string \<Rightarrow> string \<Rightarrow> bool" where
  "str_in sub [] = (sub = [])"
| "str_in sub (c # cs) = (prefix sub (c # cs) \<or> str_in sub cs)"

text \<open>
  The list of the membership test at the head of \<^verbatim>\<open>calculate_limits\<close>, the message of
  the ValueError it raises, and the set of names as the specification lists it.
\<close>

definition limit_methods :: "string list" where
  "limit_methods = [''Automatic'', ''Highest'', ''Gaussian'', ''Gaussian Median'', ''Poisson'']"

definition method_message :: string where
  "method_message =
     ''method must be one of \"Automatic\", \"Highest\", \"Gaussian\", \"Gaussian Median\", \"Poisson\"''"

definition limit_methods_as_specified :: "string list" where
  "limit_methods_as_specified =
     [''Automatic'', ''Highest'', ''Gaussian'', ''Gaussian-Median'', ''Poisson'']"

text \<open>
  The result: the name of the method used, its parameters, and (mean, critical value,
  detection limit).  \<^verbatim>\<open>spcal.poisson.formula_c\<close>, imported as \<^verbatim>\<open>poisson_limits\<close>, is not
  among the sources: it is the parameter \<open>formula_c\<close>, called as
  \<^verbatim>\<open>formula_c(ub, alpha=error_rates[0], beta=error_rates[1])\<close> and applied elementwise when
  \<^verbatim>\<open>ub\<close> is an array.
\<close>

type_synonym limits = "string \<times> (string \<times> real) list \<times> (pyval \<times> pyval \<times> pyval)"

text \<open>
  Lines 133 to 138:
  \<^verbatim>\<open>
  if method == "Automatic":
      method = "Poisson" if ub < 50.0 else "Gaussian"
  elif method == "Highest":
      lpoisson = ub + poisson_limits(ub, alpha=error_rates[0], beta=error_rates[1])[1]
      lgaussian = ub + sigma * np.std(responses)
      method = "Gaussian" if lgaussian > lpoisson else "Poisson"
  \<close>
\<close>

definition resolve_method ::
  "(real \<Rightarrow> real \<Rightarrow> real \<Rightarrow> real \<times> real) \<Rightarrow> real list \<Rightarrow> string \<Rightarrow> real \<Rightarrow> real \<times> real \<Rightarrow> real \<Rightarrow> string" where
  "resolve_method formula_c responses name sigma error_rates ub =
     (if name = ''Automatic'' then (if ub < 50.0 then ''Poisson'' else ''Gaussian'')
      else if name = ''Highest'' then
        (let lpoisson = ub + snd (formula_c ub (fst error_rates) (snd error_rates));
             lgaussian = ub + sigma * np_std responses
         in if lgaussian > lpoisson then ''Gaussian'' else ''Poisson'')
      else name)"

text \<open>
  Lines 141 to 147, the limits from the statistics of the whole signal.  The keys of the
  parameter dictionaries are written \<^verbatim>\<open>"??"\<close> in the source file; the second dictionary
  literal names that key twice, so it keeps the second value.
  \<^verbatim>\<open>
  if "Gaussian" in method:
      std = np.std(responses)
      ld = ub + sigma * std
      return method, {"??": sigma}, (ub, ld, ld)
  else:
      sc, sd = poisson_limits(ub, alpha=error_rates[0], beta=error_rates[1])
      return method, {"??": error_rates[0], "??": error_rates[1]}, (ub, ub + sc, ub + sd)
  \<close>
\<close>

definition global_limits ::
  "(real \<Rightarrow> real \<Rightarrow> real \<Rightarrow> real \<times> real) \<Rightarrow> real list \<Rightarrow> string \<Rightarrow> real \<Rightarrow> real \<times> real \<Rightarrow> real \<Rightarrow> limits" where
  "global_limits formula_c responses name sigma error_rates ub =
     (if str_in ''Gaussian'' name then
        let std = np_std responses;
            ld = ub + sigma * std
        in (name, [(''??'', sigma)], (Float ub, Float ld, Float ld))
      else
        let (sc, sd) = formula_c ub (fst error_rates) (snd error_rates)
        in (name, [(''??'', snd error_rates)], (Float ub, Float (ub + sc), Float (ub + sd))))"

text \<open>
  Lines 149 to 161, the rolling limits.
  \<^verbatim>\<open>
  pad = np.pad(responses, [window // 2, window // 2], mode="reflect")
  if "Median" in method:
      ub = moving_median(pad, window)[: responses.size]
  else:
      ub = moving_mean(pad, window)[: responses.size]
  if "Gaussian" in method:
      std = moving_std(pad, window)[: responses.size]
      ld = ub + sigma * std
      return method, {"??": sigma}, (ub, ld, ld)
  else:
      sc, sd = poisson_limits(ub, alpha=error_rates[0], beta=error_rates[1])
      return method, {"??": error_rates[0], "??": error_rates[1]}, (ub, ub + sc, ub + sd)
  \<close>
\<close>

definition windowed_limits ::
  "(real \<Rightarrow> real \<Rightarrow> real \<Rightarrow> real \<times> real) \<Rightarrow> real list \<Rightarrow> string \<Rightarrow> real \<Rightarrow> real \<times> real \<Rightarrow> nat \<Rightarrow> exn + limits" where
  "windowed_limits formula_c responses name sigma error_rates window =
     (let pad = np_pad_reflect responses (window div 2)
      in case (if str_in ''Median'' name then moving_median pad window
               else Inr (moving_mean pad window)) of
           Inl e \<Rightarrow> Inl e
         | Inr rolling \<Rightarrow>
             let ub = take (length responses) rolling
             in if str_in ''Gaussian'' name then
                  (case moving_std pad window of
                     Inl e \<Rightarrow> Inl e
                   | Inr rolling_std \<Rightarrow>
                       let std = take (length responses) rolling_std;
                           ld = map2 (\<lambda>u s. u + sigma * s) ub std
                       in Inr (name, [(''??'', sigma)], (NdArray ub, NdArray ld, NdArray ld)))
                else
                  let sc = map (\<lambda>u. fst (formula_c u (fst error_rates) (snd error_rates))) ub;
                      sd = map (\<lambda>u. snd (formula_c u (fst error_rates) (snd error_rates))) ub
                  in Inr (name, [(''??'', snd error_rates)],
                          (NdArray ub, NdArray (map2 (+) ub sc), NdArray (map2 (+) ub sd))))"

text \<open>
  \<^verbatim>\<open>calculate_limits(responses, method, sigma=3.0, error_rates=(0.05, 0.05), window=None)\<close>.
  \<^verbatim>\<open>
  if responses is None or responses.size == 0:
      raise ValueError("Responses invalid.")
  if method not in ["Automatic", "Highest", "Gaussian", "Gaussian Median", "Poisson"]:
      raise ValueError('method must be one of ...')
  if "Median" in method:
      ub = np.median(responses)
  else:
      ub = np.mean(responses)
  assert isinstance(ub, float)
  ...
  if window is None or window < 2:
  \<close>
  The assertion holds for the double-precision means and medians that the reals stand
  for, so it has no branch in the model.
\<close>

definition calculate_limits ::
  "(real \<Rightarrow> real \<Rightarrow> real \<Rightarrow> real \<times> real) \<Rightarrow> real list \<Rightarrow> string \<Rightarrow> real \<Rightarrow> real \<times> real \<Rightarrow> int option
     \<Rightarrow> exn + limits" where
  "calculate_limits formula_c responses name sigma error_rates window =
     (if responses = [] then Inl (ValueError ''Responses invalid.'')
      else if name \<notin> set limit_methods then Inl (ValueError method_message)
      else
        let ub = (if str_in ''Median'' name then np_median responses else np_mean responses);
            name = resolve_method formula_c responses name sigma error_rates ub
        in case window of
             None \<Rightarrow> Inr (global_limits formula_c responses name sigma error_rates ub)
           | Some w \<Rightarrow>
               if w < 2 then Inr (global_limits formula_c responses name sigma error_rates ub)
               else windowed_limits formula_c responses name sigma error_rates (nat w))"

text \<open>
  For closed examples \<open>formula_c\<close> is instantiated with the Currie formula that the
  sources do hold, \<open>poisson_limits\<close> of nanopart/util.py, which ignores the error rates.
\<close>

definition currie_formula :: "real \<Rightarrow> real \<Rightarrow> real \<Rightarrow> real \<times> real" where
  "currie_formula ub alpha beta = poisson_limits_default ub"

subsection \<open>Calibrated results\<close>

text \<open>
  The dictionaries that the two result functions return, as records; the second has the
  keys of the first and three more.
\<close>

record results =
  masses :: pyval
  sizes :: pyval
  background_size :: pyval
  lod :: pyval
  lod_mass :: pyval
  lod_size :: pyval

record nebulisation_results = results +
  concentration :: "real option"
  number_concentration :: real
  background_concentration :: real

text \<open>
  The first statement of both functions:
  \<^verbatim>\<open>
  if isinstance(lod, np.ndarray):
      lod = np.array([np.amin(lod), np.amax(lod), np.mean(lod), np.median(lod)])
  \<close>
\<close>

fun summarise_lod :: "pyval \<Rightarrow> exn + pyval" where
  "summarise_lod (Float v) = Inr (Float v)"
| "summarise_lod (NdArray vs) =
     (case np_amin vs of
        Inl e \<Rightarrow> Inl e
      | Inr lo \<Rightarrow>
          (case np_amax vs of
             Inl e \<Rightarrow> Inl e
           | Inr hi \<Rightarrow> Inr (NdArray [lo, hi, np_mean vs, np_median vs])))"

text \<open>
  \<^verbatim>\<open>
  def results_from_mass_response(detections, background, lod, density, massfraction, massresponse):
      ...
      masses = detections * (massresponse / massfraction)
      sizes = spcal.particle_size(masses, density=density)
      bed = spcal.particle_size(background * (massresponse / massfraction), density=density)
      lod_mass = lod * (massresponse / massfraction)
      lod_size = spcal.particle_size(lod_mass, density=density)
      return {"masses": masses, "sizes": sizes, "background_size": bed,
              "lod": lod, "lod_mass": lod_mass, "lod_size": lod_size}
  \<close>
\<close>

definition results_from_mass_response ::
  "real list \<Rightarrow> real \<Rightarrow> pyval \<Rightarrow> real \<Rightarrow> real \<Rightarrow> real \<Rightarrow> exn + results" where
  "results_from_mass_response detections background lod_in density massfraction massresponse =
     (case summarise_lod lod_in of
        Inl e \<Rightarrow> Inl e
      | Inr lod1 \<Rightarrow>
     (case py_div massresponse massfraction of
        Inl e \<Rightarrow> Inl e
      | Inr k \<Rightarrow>
     (case particle_size (NdArray (map (\<lambda>d. d * k) detections)) density of
        Inl e \<Rightarrow> Inl e
      | Inr sizes1 \<Rightarrow>
     (case particle_size (Float (background * k)) density of
        Inl e \<Rightarrow> Inl e
      | Inr bed \<Rightarrow>
     (case particle_size (elementwise (\<lambda>v. v * k) lod1) density of
        Inl e \<Rightarrow> Inl e
      | Inr lod_size1 \<Rightarrow>
          Inr \<lparr>masses = NdArray (map (\<lambda>d. d * k) detections),
               sizes = sizes1,
               background_size = bed,
               lod = lod1,
               lod_mass = elementwise (\<lambda>v. v * k) lod1,
               lod_size = lod_size1\<rparr>)))))"

text \<open>
  \<^verbatim>\<open>
  def results_from_nebulisation_efficiency(detections, background, lod, density, dwelltime,
                                           efficiency, massfraction, uptake, response, time):
      ...
      masses = spcal.particle_mass(detections, dwell=dwelltime, efficiency=efficiency,
          flowrate=uptake, response_factor=response, mass_fraction=massfraction)
      sizes = spcal.particle_size(masses, density=density)
      number_concentration = np.around(spcal.particle_number_concentration(
          detections.size, efficiency=efficiency, flowrate=uptake, time=time))
      concentration = spcal.particle_total_concentration(
          masses, efficiency=efficiency, flowrate=uptake, time=time)
      ionic = background / response
      bed = spcal.particle_size(spcal.particle_mass(background, ...), density=density)
      lod_mass = spcal.particle_mass(lod, ...)
      lod_size = spcal.particle_size(lod_mass, density=density)
      return {...}
  \<close>
  Where \<^verbatim>\<open>ionic = background / response\<close> is computed its divisor is not zero: the
  call of \<^verbatim>\<open>particle_mass\<close> before it has divided by \<open>response * massfraction\<close>.
\<close>

definition results_from_nebulisation_efficiency ::
  "real list \<Rightarrow> real \<Rightarrow> pyval \<Rightarrow> real \<Rightarrow> real \<Rightarrow> real \<Rightarrow> real \<Rightarrow> real \<Rightarrow> real \<Rightarrow> real
     \<Rightarrow> exn + nebulisation_results" where
  "results_from_nebulisation_efficiency detections background lod_in density dwelltime
       efficiency massfraction uptake response time =
     (case summarise_lod lod_in of
        Inl e \<Rightarrow> Inl e
      | Inr lod1 \<Rightarrow>
     (case particle_mass (NdArray detections) dwelltime efficiency uptake response massfraction of
        Inl e \<Rightarrow> Inl e
      | Inr masses1 \<Rightarrow>
     (case particle_size masses1 density of
        Inl e \<Rightarrow> Inl e
      | Inr sizes1 \<Rightarrow>
     (case particle_number_concentration (length detections) efficiency uptake time of
        Inl e \<Rightarrow> Inl e
      | Inr pnc \<Rightarrow>
     (case particle_mass (Float background) dwelltime efficiency uptake response massfraction of
        Inl e \<Rightarrow> Inl e
      | Inr background_mass \<Rightarrow>
     (case particle_size background_mass density of
        Inl e \<Rightarrow> Inl e
      | Inr bed \<Rightarrow>
     (case particle_mass lod1 dwelltime efficiency uptake response massfraction of
        Inl e \<Rightarrow> Inl e
      | Inr lod_mass1 \<Rightarrow>
     (case particle_size lod_mass1 density of
        Inl e \<Rightarrow> Inl e
      | Inr lod_size1 \<Rightarrow>
          Inr \<lparr>masses = masses1,
               sizes = sizes1,
               background_size = bed,
               lod = lod1,
               lod_mass = lod_mass1,
               lod_size = lod_size1,
               concentration = particle_total_concentration masses1 efficiency uptake time,
               number_concentration = np_around pnc,
               background_concentration = background / response\<rparr>))))))))"

text \<open>
  The four values that replace an array of limits, with the minimum and the maximum as
  those of the set of its elements.
\<close>

definition four_point_summary :: "real list \<Rightarrow> real list" where
  "four_point_summary xs = [Min (set xs), Max (set xs), np_mean xs, np_median xs]"

section \<open>spcal/gui/batch.py\<close>

subsection \<open>Python objects and dictionaries\<close>

text \<open>
  The values held by the dictionaries of the batch thread, and a dictionary as an
  association list in insertion order: subscription raises KeyError on a key that is not
  there, assignment replaces the value of a key or appends a new key.
\<close>

datatype pyobj =
    PyNone
  | PyInt int
  | PyFloat real
  | PyArray "real list"
  | PyDict "(string \<times> pyobj) list"

type_synonym pydict = "(string \<times> pyobj) list"

definition getitem :: "(string \<times> 'a) list \<Rightarrow> string \<Rightarrow> exn + 'a" where
  "getitem d k = (case map_of d k of None \<Rightarrow> Inl KeyError | Some v \<Rightarrow> Inr v)"

fun setitem :: "(string \<times> 'a) list \<Rightarrow> string \<Rightarrow> 'a \<Rightarrow> (string \<times> 'a) list" where
  "setitem [] k v = [(k, v)]"
| "setitem ((k', v') # d) k v = (if k' = k then (k, v) # d else (k', v') # setitem d k v)"

text \<open>\<^verbatim>\<open>d.update(other)\<close>.\<close>

definition dict_update :: "(string \<times> 'a) list \<Rightarrow> (string \<times> 'a) list \<Rightarrow> (string \<times> 'a) list" where
  "dict_update d other = fold (\<lambda>(k, v) acc. setitem acc k v) other d"

text \<open>
  The product \<^verbatim>\<open>a * b\<close> of two objects that are numbers or arrays; with \<^verbatim>\<open>None\<close> or a
  dictionary as an operand it raises TypeError.
\<close>

fun py_mul :: "pyobj \<Rightarrow> pyobj \<Rightarrow> exn + pyobj" where
  "py_mul (PyInt a) (PyInt b) = Inr (PyInt (a * b))"
| "py_mul (PyInt a) (PyFloat b) = Inr (PyFloat (of_int a * b))"
| "py_mul (PyFloat a) (PyInt b) = Inr (PyFloat (a * of_int b))"
| "py_mul (PyFloat a) (PyFloat b) = Inr (PyFloat (a * b))"
| "py_mul (PyArray xs) (PyInt b) = Inr (PyArray (map (\<lambda>x. x * of_int b) xs))"
| "py_mul (PyArray xs) (PyFloat b) = Inr (PyArray (map (\<lambda>x. x * b) xs))"
| "py_mul (PyInt a) (PyArray ys) = Inr (PyArray (map (\<lambda>y. of_int a * y) ys))"
| "py_mul (PyFloat a) (PyArray ys) = Inr (PyArray (map (\<lambda>y. a * y) ys))"
| "py_mul (PyArray xs) (PyArray ys) =
     (if length xs = length ys then Inr (PyArray (map2 (*) xs ys))
      else if length xs = 1 then Inr (PyArray (map (\<lambda>y. hd xs * y) ys))
      else if length ys = 1 then Inr (PyArray (map (\<lambda>x. x * hd ys) xs))
      else Inl (ValueError ''operands could not be broadcast together''))"
| "py_mul a b = Inl TypeError"

text \<open>Sequencing of steps that may raise: the first exception ends the sequence.\<close>

definition and_then :: "exn + 'a \<Rightarrow> ('a \<Rightarrow> exn + 'b) \<Rightarrow> exn + 'b" where
  "and_then r f = (case r of Inl e \<Rightarrow> Inl e | Inr v \<Rightarrow> f v)"

subsection \<open>The thread and what it calls\<close>

text \<open>
  What \<^verbatim>\<open>ProcessThread.run\<close> calls and does not define: \<^verbatim>\<open>process_file_detections\<close>
  (which reads the file), the calibration function \<^verbatim>\<open>self.method\<close>,
  \<^verbatim>\<open>spcal.cell_concentration\<close>, \<^verbatim>\<open>export_nanoparticle_results\<close> (which writes the file)
  and \<^verbatim>\<open>self.isInterruptionRequested()\<close>.  Each call returns or raises; the interruption
  flag is set by another thread, so what a poll answers is given per poll: the argument
  is the number of files the loop has gone through before it.
\<close>

record collaborators =
  process_file_detections :: "string \<Rightarrow> exn + (string \<times> pydict) list"
  calibration_method :: "pyobj \<Rightarrow> pyobj \<Rightarrow> pyobj \<Rightarrow> pydict \<Rightarrow> exn + pydict"
  cell_concentration :: "pyobj \<Rightarrow> pyobj \<Rightarrow> pyobj \<Rightarrow> exn + pyobj"
  export_nanoparticle_results :: "string \<Rightarrow> (string \<times> pydict) list \<Rightarrow> exn + unit"
  isInterruptionRequested :: "nat \<Rightarrow> bool"

text \<open>The two signals of the thread, each carrying the name of the input file.\<close>

datatype emitted = processComplete string | processFailed string

fun emitted_file :: "emitted \<Rightarrow> string" where
  "emitted_file (processComplete f) = f"
| "emitted_file (processFailed f) = f"

text \<open>How \<^verbatim>\<open>run\<close> ends: it returns, or an exception leaves it.\<close>

datatype run_end = Returned | Uncaught exn

subsection \<open>The calibration block\<close>

text \<open>
  \<^verbatim>\<open>
  self.method_kws[name]["time"] = (
      results[name]["events"] * self.method_kws[name]["dwelltime"]
  )
  \<close>
  The right-hand side, evaluated before the assignment.
\<close>

definition acquisition_time :: "(string \<times> pydict) list \<Rightarrow> (string \<times> pydict) list \<Rightarrow> string \<Rightarrow> exn + pyobj" where
  "acquisition_time results method_kws name =
     and_then (getitem results name) (\<lambda>r.
     and_then (getitem r ''events'') (\<lambda>events.
     and_then (getitem method_kws name) (\<lambda>kws.
     and_then (getitem kws ''dwelltime'') (\<lambda>dwelltime.
     py_mul events dwelltime))))"

text \<open>
  \<^verbatim>\<open>
  if any(x is None for x in self.method_kws[name].values()):
      logger.warning(f"{infile}:{name}, missing inputs for calibrated results.")
  else:
      results[name].update(
          self.method(
              results[name]["detections"],
              results[name]["background"],
              results[name]["lod"],
              **self.method_kws[name],
          )
      )
      results[name]["inputs"] = {
          k: v for k, v in self.method_kws[name].items() if v is not None
      }
  \<close>
\<close>

definition calibrated_results ::
  "collaborators \<Rightarrow> (string \<times> pydict) list \<Rightarrow> (string \<times> pydict) list \<Rightarrow> string
     \<Rightarrow> exn + (string \<times> pydict) list" where
  "calibrated_results env results method_kws name =
     and_then (getitem method_kws name) (\<lambda>kws.
     if list_ex (\<lambda>(k, v). v = PyNone) kws then Inr results
     else
       and_then (getitem results name) (\<lambda>r.
       and_then (getitem r ''detections'') (\<lambda>detections.
       and_then (getitem r ''background'') (\<lambda>background.
       and_then (getitem r ''lod'') (\<lambda>lod.
       and_then (calibration_method env detections background lod kws) (\<lambda>calibrated.
       Inr (setitem results name
              (setitem (dict_update r calibrated) ''inputs''
                 (PyDict (filter (\<lambda>(k, v). v \<noteq> PyNone) kws))))))))))"

text \<open>
  \<^verbatim>\<open>
  if self.cell_kws[name]["cell_diameter"] is not None:
      if self.cell_kws[name]["molar_mass"] is None:
          logger.warning(f"{infile}:{name}, missing inputs for cell results.")
      else:
          results[name]["cell_concentrations"] = spcal.cell_concentration(
              results[name]["masses"],
              diameter=self.cell_kws[name]["cell_diameter"],
              molar_mass=self.cell_kws[name]["molar_mass"],
          )
          results[name]["lod_cell_concentration"] = spcal.cell_concentration(
              results[name]["lod_mass"],
              diameter=self.cell_kws[name]["cell_diameter"],
              molar_mass=self.cell_kws[name]["molar_mass"],
          )
          results[name]["inputs"].update(self.cell_kws[name])
  \<close>
  \<^verbatim>\<open>update\<close> is an attribute of a dictionary only.
\<close>

definition cell_results ::
  "collaborators \<Rightarrow> (string \<times> pydict) list \<Rightarrow> (string \<times> pydict) list \<Rightarrow> string
     \<Rightarrow> exn + (string \<times> pydict) list" where
  "cell_results env results cell_kws name =
     and_then (getitem cell_kws name) (\<lambda>ckws.
     and_then (getitem ckws ''cell_diameter'') (\<lambda>diameter.
     if diameter = PyNone then Inr results
     else
       and_then (getitem ckws ''molar_mass'') (\<lambda>molar_mass.
       if molar_mass = PyNone then Inr results
       else
         and_then (getitem results name) (\<lambda>r.
         and_then (getitem r ''masses'') (\<lambda>masses.
         and_then (cell_concentration env masses diameter molar_mass) (\<lambda>cc.
         and_then (getitem r ''lod_mass'') (\<lambda>lod_mass.
         and_then (cell_concentration env lod_mass diameter molar_mass) (\<lambda>lod_cc.
         and_then (getitem r ''inputs'') (\<lambda>inputs.
         case inputs of
           PyDict d \<Rightarrow>
             Inr (setitem results name
                    (setitem (setitem (setitem r ''cell_concentrations'' cc)
                                ''lod_cell_concentration'' lod_cc)
                       ''inputs'' (PyDict (dict_update d ckws))))
         | _ \<Rightarrow> Inl AttributeError)))))))))"

text \<open>
  The body of \<^verbatim>\<open>for name in results:\<close> for one name, and the loop over the names.  The
  assignment to \<^verbatim>\<open>self.method_kws[name]["time"]\<close> changes the dictionary of the thread, so
  the dictionary is returned also when a later step raises.
\<close>

definition calibrate_name ::
  "collaborators \<Rightarrow> (string \<times> pydict) list \<Rightarrow> string \<Rightarrow> (string \<times> pydict) list \<times> (string \<times> pydict) list
     \<Rightarrow> (string \<times> pydict) list \<times> (exn + (string \<times> pydict) list)" where
  "calibrate_name env cell_kws name state =
     (case state of (method_kws, results) \<Rightarrow>
        (case acquisition_time results method_kws name of
           Inl e \<Rightarrow> (method_kws, Inl e)
         | Inr time \<Rightarrow>
             (case getitem method_kws name of
                Inl e \<Rightarrow> (method_kws, Inl e)
              | Inr kws \<Rightarrow>
                  let method_kws = setitem method_kws name (setitem kws ''time'' time)
                  in (method_kws,
                      and_then (calibrated_results env results method_kws name) (\<lambda>results.
                      cell_results env results cell_kws name)))))"

fun calibrate_names ::
  "collaborators \<Rightarrow> (string \<times> pydict) list \<Rightarrow> string list \<Rightarrow> (string \<times> pydict) list \<times> (string \<times> pydict) list
     \<Rightarrow> (string \<times> pydict) list \<times> (exn + (string \<times> pydict) list)" where
  "calibrate_names env cell_kws [] (method_kws, results) = (method_kws, Inr results)"
| "calibrate_names env cell_kws (name # names) (method_kws, results) =
     (case calibrate_name env cell_kws name (method_kws, results) of
        (method_kws, Inl e) \<Rightarrow> (method_kws, Inl e)
      | (method_kws, Inr results) \<Rightarrow> calibrate_names env cell_kws names (method_kws, results))"

subsection \<open>ProcessThread.run\<close>

text \<open>
  One pass of the body of the loop after the poll of the interruption flag: the three
  \<^verbatim>\<open>try\<close> blocks.  Each has the handler
  \<^verbatim>\<open>except ValueError as e: logger.exception(e); self.processFailed.emit(infile.name); continue\<close>,
  which catches ValueError and no other exception.  The pass gives the dictionary of the
  thread and either the signal it emits or the exception that leaves \<^verbatim>\<open>run\<close>.
  \<open>path_name\<close> is \<^verbatim>\<open>infile.name\<close>, the last component of the path.
\<close>

definition path_name :: "string \<Rightarrow> string" where
  "path_name path = rev (takeWhile (\<lambda>c. c \<noteq> CHR ''/'') (rev path))"

definition process_one ::
  "collaborators \<Rightarrow> (string \<times> pydict) list \<Rightarrow> (string \<times> pydict) list \<Rightarrow> string \<Rightarrow> string
     \<Rightarrow> (string \<times> pydict) list \<times> (exn + emitted)" where
  "process_one env cell_kws method_kws infile outfile =
     (case process_file_detections env infile of
        Inl (ValueError msg) \<Rightarrow> (method_kws, Inr (processFailed (path_name infile)))
      | Inl e \<Rightarrow> (method_kws, Inl e)
      | Inr results \<Rightarrow>
          (case calibrate_names env cell_kws (map fst results) (method_kws, results) of
             (method_kws, Inl (ValueError msg)) \<Rightarrow> (method_kws, Inr (processFailed (path_name infile)))
           | (method_kws, Inl e) \<Rightarrow> (method_kws, Inl e)
           | (method_kws, Inr results) \<Rightarrow>
               (case export_nanoparticle_results env outfile results of
                  Inl (ValueError msg) \<Rightarrow> (method_kws, Inr (processFailed (path_name infile)))
                | Inl e \<Rightarrow> (method_kws, Inl e)
                | Inr u \<Rightarrow> (method_kws, Inr (processComplete (path_name infile))))))"

text \<open>
  \<^verbatim>\<open>
  def run(self):
      for infile, outfile in zip(self.infiles, self.outfiles):
          if self.isInterruptionRequested():
              break
          ...
  \<close>
  \<open>run_from i\<close> is the loop from its \<open>i\<close>-th pass on; it gives the signals emitted, in
  order, and how \<^verbatim>\<open>run\<close> ends.
\<close>

fun run_from ::
  "collaborators \<Rightarrow> (string \<times> pydict) list \<Rightarrow> nat \<Rightarrow> (string \<times> pydict) list \<Rightarrow> (string \<times> string) list
     \<Rightarrow> emitted list \<times> run_end" where
  "run_from env cell_kws i method_kws [] = ([], Returned)"
| "run_from env cell_kws i method_kws ((infile, outfile) # files) =
     (if isInterruptionRequested env i then ([], Returned)
      else
        (case process_one env cell_kws method_kws infile outfile of
           (method_kws, Inl e) \<Rightarrow> ([], Uncaught e)
         | (method_kws, Inr signal) \<Rightarrow>
             (case run_from env cell_kws (Suc i) method_kws files of
                (signals, ending) \<Rightarrow> (signal # signals, ending))))"

definition run ::
  "collaborators \<Rightarrow> (string \<times> pydict) list \<Rightarrow> (string \<times> pydict) list \<Rightarrow> string list \<Rightarrow> string list
     \<Rightarrow> emitted list \<times> run_end" where
  "run env method_kws cell_kws infiles outfiles =
     run_from env cell_kws 0 method_kws (zip infiles outfiles)"

subsection \<open>A batch of two files\<close>

text \<open>
  Collaborators that never raise: the detection stage gives one element with 10 events,
  the calibration function and the export succeed, nobody asks for an interruption.
  They stand for a detection stage that returns.  The \<^verbatim>\<open>process_file_detections\<close> of
  the sources subscripts the tuple that \<^verbatim>\<open>calculate_limits\<close> returns with a string
  (\<^verbatim>\<open>limits[2]["lc"]\<close>), which raises a TypeError of its own; the handlers of \<^verbatim>\<open>run\<close>
  do not catch that one either.
\<close>

definition gold_results :: "(string \<times> pydict) list" where
  "gold_results =
     [(''Au'', [(''detections'', PyArray [20, 30]), (''background'', PyFloat 1),
                (''events'', PyInt 10), (''lod'', PyFloat 5), (''inputs'', PyDict [])])]"

definition quiet :: collaborators where
  "quiet = \<lparr>process_file_detections = (\<lambda>file. Inr gold_results),
            calibration_method = (\<lambda>detections background lod kws. Inr []),
            cell_concentration = (\<lambda>masses diameter molar_mass. Inr masses),
            export_nanoparticle_results = (\<lambda>file results. Inr ()),
            isInterruptionRequested = (\<lambda>i. False)\<rparr>"

text \<open>
  Keyword dictionaries as \<^verbatim>\<open>Dict[str, Dict[str, Optional[float]]]\<close> allows them: one without
  a dwell time, one with a dwell time and without an efficiency.
\<close>

definition kws_without_dwelltime :: "(string \<times> pydict) list" where
  "kws_without_dwelltime =
     [(''Au'', [(''density'', PyFloat 19300), (''dwelltime'', PyNone), (''efficiency'', PyFloat 0.1),
                (''mass_fraction'', PyFloat 1), (''uptake'', PyFloat 0.001), (''response'', PyFloat 1)])]"

definition kws_without_efficiency :: "(string \<times> pydict) list" where
  "kws_without_efficiency =
     [(''Au'', [(''density'', PyFloat 19300), (''dwelltime'', PyFloat 0.001), (''efficiency'', PyNone),
                (''mass_fraction'', PyFloat 1), (''uptake'', PyFloat 0.001), (''response'', PyFloat 1)])]"

definition no_cell_kws :: "(string \<times> pydict) list" where
  "no_cell_kws = [(''Au'', [(''cell_diameter'', PyNone), (''molar_mass'', PyNone)])]"

section \<open>Properties of the particle formulas\<close>

lemma particle_mass_nonzero:
  "response_factor * mass_fraction \<noteq> 0 \<Longrightarrow>
   particle_mass signal dwell efficiency flowrate response_factor mass_fraction =
     Inr (elementwise (\<lambda>s. s * (dwell * flowrate * efficiency / (response_factor * mass_fraction))) signal)"
  by (simp add: particle_mass_def py_div_def)

text \<open>
  C1 (as amended).  For every signal, scalar or array, and every dwell, efficiency,
  flowrate, response factor and mass fraction with a non-zero product of the last two,
  \<open>particle_mass\<close> returns, elementwise, signal * dwell * flowrate * efficiency divided by
  (response_factor * mass_fraction): the mass fraction divides.  With the default mass
  fraction 1 this is signal * dwell * flowrate * efficiency / response_factor.
\<close>

theorem particle_mass_divides_by_mass_fraction:
  assumes "response_factor * mass_fraction \<noteq> 0"
  shows "particle_mass signal dwell efficiency flowrate response_factor mass_fraction =
           Inr (elementwise (\<lambda>s. s * dwell * flowrate * efficiency / (response_factor * mass_fraction)) signal)
         \<and> (response_factor \<noteq> 0 \<longrightarrow>
              particle_mass_default signal dwell efficiency flowrate response_factor =
                Inr (elementwise (\<lambda>s. s * dwell * flowrate * efficiency / response_factor) signal))"
proof -
  have "particle_mass signal dwell efficiency flowrate response_factor mass_fraction =
        Inr (elementwise (\<lambda>s. s * dwell * flowrate * efficiency / (response_factor * mass_fraction)) signal)"
    using assms by (simp add: particle_mass_nonzero mult.assoc)
  moreover have "response_factor \<noteq> 0 \<Longrightarrow>
        particle_mass_default signal dwell efficiency flowrate response_factor =
          Inr (elementwise (\<lambda>s. s * dwell * flowrate * efficiency / response_factor) signal)"
    by (simp add: particle_mass_default_def particle_mass_nonzero mult.assoc)
  ultimately show ?thesis by blast
qed

theorem particle_mass_divides_by_mass_fraction_witness:
  "particle_mass (NdArray [1, 2, 3]) (1/2) (1/2) 4 2 (1/2) = Inr (NdArray [1, 2, 3])
   \<and> particle_mass_default (NdArray [1, 2, 3]) (1/2) (1/2) 4 2 = Inr (NdArray [1/2, 1, 3/2])"
  using particle_mass_divides_by_mass_fraction [of 2 "1/2" "NdArray [1, 2, 3]" "1/2" "1/2" 4]
  by simp

text \<open>
  The claim as worded, with the mass fraction as a factor of the numerator, fails on the
  input of the repository's own test: the code returns 1 where the worded formula gives 1/4.
\<close>

theorem particle_mass_as_specified_counterexample:
  "particle_mass (Float 1) (1/2) (1/2) 4 2 (1/2) = Inr (Float 1)
   \<and> particle_mass_as_specified (Float 1) (1/2) (1/2) 4 2 (1/2) = Float (1/4)
   \<and> particle_mass (Float 1) (1/2) (1/2) 4 2 (1/2)
       \<noteq> Inr (particle_mass_as_specified (Float 1) (1/2) (1/2) 4 2 (1/2))"
  by (simp add: particle_mass_def py_div_def particle_mass_as_specified_def)

text \<open>
  C8.  For every positive density and every positive diameter \<open>d\<close>, the size computed from
  the mass of the reference sphere is \<open>d\<close> again.
\<close>

theorem particle_size_of_reference_particle_mass:
  assumes "0 < density" and "0 < d"
  shows "particle_size (Float (reference_particle_mass density d)) density = Inr (Float d)"
proof -
  have nz: "pi * density \<noteq> 0" using assms by simp
  have "6 / (pi * density) * (4 / 3 * pi * (d / 2) ^ 3 * density) = d ^ 3"
    using assms by (simp add: power3_eq_cube field_simps)
  moreover have "root 3 (d ^ 3) = d"
    using assms by (simp add: real_root_power_cancel)
  ultimately show ?thesis
    using nz by (simp add: particle_size_def py_div_def reference_particle_mass_def)
qed

theorem particle_size_of_reference_particle_mass_witness:
  "(0::real) < 750 / pi \<and> (0::real) < 1/5
   \<and> particle_size (Float (reference_particle_mass (750 / pi) (1/5))) (750 / pi) = Inr (Float (1/5))"
  using particle_size_of_reference_particle_mass [of "750 / pi" "1/5"] by simp

text \<open>
  The function of nanopart/util.py does not halve the diameter: the size computed from
  its mass is twice the diameter.
\<close>

lemma particle_size_of_nanopart_reference_particle_mass:
  assumes "0 < density" and "0 < d"
  shows "particle_size (Float (nanopart_reference_particle_mass density d)) density = Inr (Float (2 * d))"
proof -
  have nz: "pi * density \<noteq> 0" using assms by simp
  have "6 / (pi * density) * (4 / 3 * pi * d ^ 3 * density) = (2 * d) ^ 3"
    using assms by (simp add: power3_eq_cube field_simps)
  moreover have "root 3 ((2 * d) ^ 3) = 2 * d"
    using assms by (intro real_root_power_cancel) simp_all
  ultimately show ?thesis
    using nz by (simp add: particle_size_def py_div_def nanopart_reference_particle_mass_def)
qed

section \<open>Properties of accumulate_detections_scipy\<close>

subsection \<open>The labels of a run are one segment\<close>





lemma foldr_max_Cons: "foldr max (x # xs) (0::nat) = max x (foldr max xs 0)"
  by simp










subsection \<open>Sums and regions\<close>



text \<open>
  The rows of the labels that the test expects from the three-output function: they are
  the inclusive ranges of the three runs.
\<close>

lemma regions_of_expected_labels:
  "regions_of [1, 0, 2, 2, 0, 0, 0, 0, 0, 3] = [(0, 0), (2, 3), (9, 9)]"
  "regions_of [1, 1, 1, 1, 1, 0, 0, 0, 0, 2] = [(0, 4), (9, 9)]"
  by code_simp+

subsection \<open>The test signal\<close>

text \<open>
  C2.  On the test signal with \<open>lc = ld = 1\<close> the function returns the sums \<open>[2, 4]\<close> and
  the labels \<open>[1,0,2,2,0,0,0,0,0,0]\<close>: the third run, the last sample, is labelled 3 by
  \<open>ndi_label\<close>, but \<open>[1..<3]\<close> holds only 1 and 2, so it is neither summed nor kept in the
  labels.
\<close>

theorem accumulate_detections_scipy_drops_last_region:
  "ndi_label (map (\<lambda>v. v > 1) test_signal) = ([1, 0, 2, 2, 0, 0, 0, 0, 0, 3], 3)
   \<and> accumulate_detections_scipy test_signal 1 1 = ([2, 4], [1, 0, 2, 2, 0, 0, 0, 0, 0, 0])
   \<and> accumulate_detections_scipy test_signal 1 1 \<noteq> ([2, 4, 2], [1, 0, 2, 2, 0, 0, 0, 0, 0, 3])"
proof -
  have l: "ndi_label (map (\<lambda>v. v > 1) test_signal) = ([1, 0, 2, 2, 0, 0, 0, 0, 0, 3], 3)"
    by code_simp
  have e: "accumulate_detections_scipy test_signal 1 1 = ([2, 4], [1, 0, 2, 2, 0, 0, 0, 0, 0, 0])"
    by code_simp
  show ?thesis by (simp add: l e)
qed

text \<open>
  C4.  With \<open>lc = 1\<close> above \<open>ld = 0\<close> (\<^verbatim>\<open>limit_accumulation=1\<close>, \<^verbatim>\<open>limit_detection=0\<close>) the
  function returns as it does for \<open>ld = 1\<close>; the two limits are never compared.
\<close>

theorem accumulate_detections_scipy_accepts_lc_above_ld:
  "(0::real) < 1
   \<and> accumulate_detections_scipy test_signal 0 1 = ([2, 4], [1, 0, 2, 2, 0, 0, 0, 0, 0, 0])"
proof -
  have "accumulate_detections_scipy test_signal 0 1 = ([2, 4], [1, 0, 2, 2, 0, 0, 0, 0, 0, 0])"
    by code_simp
  then show ?thesis by simp
qed

section \<open>Properties of poisson_limits\<close>

lemma poisson_limits_unfold:
  "poisson_limits ub epsilon =
     (2.33 * sqrt (if ub < 5 then ub + epsilon else ub),
      2.71 + 4.65 * sqrt (if ub < 5 then ub + epsilon else ub))"
  by (simp add: poisson_limits_def Let_def)

text \<open>
  C5.  For every mean at least 0, the pair \<open>(sc, sd)\<close> that \<open>poisson_limits\<close> returns with
  its default correction satisfies \<open>0 \<le> sc\<close> and \<open>sc \<le> sd\<close>.
\<close>

theorem poisson_limits_ordered:
  assumes "0 \<le> mean"
  shows "0 \<le> fst (poisson_limits_default mean)
         \<and> fst (poisson_limits_default mean) \<le> snd (poisson_limits_default mean)"
proof -
  define u where "u = (if mean < 5 then mean + 0.5 else mean)"
  have u: "0 \<le> sqrt u" using assms by (simp add: u_def)
  have eq: "poisson_limits_default mean = (2.33 * sqrt u, 2.71 + 4.65 * sqrt u)"
    unfolding u_def poisson_limits_default_def by (rule poisson_limits_unfold)
  have "2.33 * sqrt u \<le> 2.71 + 4.65 * sqrt u" using u by simp
  moreover have "0 \<le> 2.33 * sqrt u" using u by simp
  ultimately show ?thesis unfolding eq by simp
qed

theorem poisson_limits_ordered_witness:
  "(0::real) \<le> 0
   \<and> fst (poisson_limits_default 0) = 2.33 * sqrt 0.5
   \<and> snd (poisson_limits_default 0) = 2.71 + 4.65 * sqrt 0.5
   \<and> 0 \<le> fst (poisson_limits_default 0)
   \<and> fst (poisson_limits_default 0) \<le> snd (poisson_limits_default 0)"
  using poisson_limits_ordered [of 0]
  by (simp add: poisson_limits_default_def poisson_limits_unfold)

section \<open>Properties of calculate_limits\<close>

lemma length_np_pad_reflect: "length (np_pad_reflect xs w) = length xs + 2 * w"
  by (simp add: np_pad_reflect_def)

lemma moving_median_returns: "n \<le> length x \<Longrightarrow> \<exists>r. moving_median x n = Inr r"
  by (simp add: moving_median_def Let_def)

lemma moving_std_returns: "n \<le> length x \<Longrightarrow> \<exists>r. moving_std x n = Inr r"
  by (simp add: moving_std_def Let_def)

lemma window_fits_padded:
  assumes "responses \<noteq> []"
  shows "w \<le> length (np_pad_reflect responses (w div 2))"
proof -
  have "1 \<le> length responses" using assms by (cases responses) auto
  moreover have "w \<le> 1 + 2 * (w div 2)" by presburger
  ultimately show ?thesis by (simp add: length_np_pad_reflect)
qed

lemma windowed_limits_returns:
  assumes "responses \<noteq> []"
  shows "\<exists>rest. windowed_limits formula_c responses name sigma error_rates w = Inr (name, rest)"
proof -
  define pad where "pad = np_pad_reflect responses (w div 2)"
  have fits: "w \<le> length pad" unfolding pad_def using assms by (rule window_fits_padded)
  from moving_median_returns [OF fits] obtain med where med: "moving_median pad w = Inr med" by blast
  from moving_std_returns [OF fits] obtain sd where sd: "moving_std pad w = Inr sd" by blast
  show ?thesis
    unfolding windowed_limits_def pad_def [symmetric] Let_def
    by (simp add: med sd)
qed

lemma global_limits_name:
  "\<exists>rest. global_limits formula_c responses name sigma error_rates ub = (name, rest)"
  by (simp add: global_limits_def Let_def split: prod.splits)

lemma str_in_Median [simp]:
  "str_in ''Median'' ''Automatic'' = False"
  "str_in ''Median'' ''Highest'' = False"
  "str_in ''Median'' ''Gaussian'' = False"
  "str_in ''Median'' ''Poisson'' = False"
  "str_in ''Median'' ''Gaussian Median'' = True"
  by simp_all

lemma calculate_limits_accepted:
  assumes "responses \<noteq> []" and "name \<in> set limit_methods"
  shows "calculate_limits formula_c responses name sigma error_rates window =
           (let ub = (if str_in ''Median'' name then np_median responses else np_mean responses);
                name = resolve_method formula_c responses name sigma error_rates ub
            in case window of
                 None \<Rightarrow> Inr (global_limits formula_c responses name sigma error_rates ub)
               | Some w \<Rightarrow>
                   if w < 2 then Inr (global_limits formula_c responses name sigma error_rates ub)
                   else windowed_limits formula_c responses name sigma error_rates (nat w))"
  using assms by (simp add: calculate_limits_def)

lemma calculate_limits_returns:
  assumes "responses \<noteq> []" and "name \<in> set limit_methods"
  shows "\<exists>rest. calculate_limits formula_c responses name sigma error_rates window
           = Inr (resolve_method formula_c responses name sigma error_rates
                    (if str_in ''Median'' name then np_median responses else np_mean responses),
                  rest)"
proof -
  define ub where "ub = (if str_in ''Median'' name then np_median responses else np_mean responses)"
  define chosen where "chosen = resolve_method formula_c responses name sigma error_rates ub"
  obtain r1 where g: "global_limits formula_c responses chosen sigma error_rates ub = (chosen, r1)"
    using global_limits_name by blast
  have w: "\<exists>rest. windowed_limits formula_c responses chosen sigma error_rates k
             = Inr (chosen, rest)" for k
    using assms(1) by (rule windowed_limits_returns)
  have "\<exists>rest.
          (case window of
             None \<Rightarrow> Inr (global_limits formula_c responses chosen sigma error_rates ub)
           | Some w \<Rightarrow>
               if w < 2 then Inr (global_limits formula_c responses chosen sigma error_rates ub)
               else windowed_limits formula_c responses chosen sigma error_rates (nat w))
          = Inr (chosen, rest)"
  proof (cases window)
    case None
    with g show ?thesis by (simp del: split_paired_Ex)
  next
    case (Some k)
    with g w [of "nat k"] show ?thesis by (simp del: split_paired_Ex)
  qed
  then show ?thesis
    unfolding calculate_limits_accepted [OF assms] Let_def ub_def [symmetric] chosen_def [symmetric] .
qed

text \<open>
  C6.  For every non-empty signal and every window, \<open>calculate_limits\<close> with the method
  Highest returns what it returns with the method Gaussian when the Gaussian limit of the
  whole signal, mean + sigma * std, is strictly larger than the Poisson limit at the mean
  of the whole signal, and what it returns with the method Poisson otherwise; the name it
  returns is the method selected.  The selection does not mention the window.
\<close>

theorem highest_selects_on_global_statistics:
  assumes "responses \<noteq> []"
  shows "calculate_limits formula_c responses ''Highest'' sigma error_rates window =
           calculate_limits formula_c responses
             (if np_mean responses + sigma * np_std responses
                   > np_mean responses
                     + snd (formula_c (np_mean responses) (fst error_rates) (snd error_rates))
              then ''Gaussian'' else ''Poisson'')
             sigma error_rates window
         \<and> (\<exists>params lims.
               calculate_limits formula_c responses ''Highest'' sigma error_rates window =
                 Inr (if np_mean responses + sigma * np_std responses
                           > np_mean responses
                             + snd (formula_c (np_mean responses) (fst error_rates) (snd error_rates))
                      then ''Gaussian'' else ''Poisson'', params, lims))"
proof -
  define chosen where "chosen =
    (if np_mean responses + sigma * np_std responses
          > np_mean responses + snd (formula_c (np_mean responses) (fst error_rates) (snd error_rates))
     then ''Gaussian'' else ''Poisson'')"
  have h: "''Highest'' \<in> set limit_methods" by (simp add: limit_methods_def)
  have c: "chosen \<in> set limit_methods" by (simp add: limit_methods_def chosen_def)
  have rh: "resolve_method formula_c responses ''Highest'' sigma error_rates (np_mean responses) = chosen"
    by (simp add: resolve_method_def chosen_def Let_def)
  have rc: "resolve_method formula_c responses chosen sigma error_rates (np_mean responses) = chosen"
    by (simp add: resolve_method_def chosen_def)
  have mc: "str_in ''Median'' chosen = False" by (simp add: chosen_def)
  have "calculate_limits formula_c responses ''Highest'' sigma error_rates window =
        calculate_limits formula_c responses chosen sigma error_rates window"
    unfolding calculate_limits_accepted [OF assms h] calculate_limits_accepted [OF assms c]
    by (simp add: rh rc mc)
  moreover from calculate_limits_returns [OF assms h, of formula_c sigma error_rates window]
  obtain rest where
    "calculate_limits formula_c responses ''Highest'' sigma error_rates window = Inr (chosen, rest)"
    by (auto simp: rh)
  then have "\<exists>params lims.
          calculate_limits formula_c responses ''Highest'' sigma error_rates window
            = Inr (chosen, params, lims)"
    by (cases rest) auto
  ultimately show ?thesis unfolding chosen_def by blast
qed

lemma currie_formula_detection_positive: "0 < snd (currie_formula 0 a b)"
proof -
  have "0 \<le> sqrt (1 / 2 :: real)" by simp
  then have "0 < 2.71 + 4.65 * sqrt (1 / 2 :: real)" by (simp add: add_pos_nonneg)
  then show ?thesis
    by (simp add: currie_formula_def poisson_limits_default_def poisson_limits_def Let_def)
qed

lemma np_mean_zeros: "np_mean [0, 0, 0, 0] = 0"
  by (simp add: np_mean_def)

lemma np_std_zeros: "np_std [0, 0, 0, 0] = 0"
  by (simp add: np_std_def np_mean_def)

theorem highest_selects_on_global_statistics_witness:
  "[0, 0, 0, 0 :: real] \<noteq> []
   \<and> calculate_limits currie_formula [0, 0, 0, 0] ''Highest'' 3 (0.05, 0.05) (Some 3) =
       calculate_limits currie_formula [0, 0, 0, 0] ''Poisson'' 3 (0.05, 0.05) (Some 3)
   \<and> (\<exists>params lims.
         calculate_limits currie_formula [0, 0, 0, 0] ''Highest'' 3 (0.05, 0.05) (Some 3) =
           Inr (''Poisson'', params, lims))"
proof -
  have ne: "[0, 0, 0, 0 :: real] \<noteq> []" by simp
  have sel: "\<not> (np_mean [0, 0, 0, 0] + 3 * np_std [0, 0, 0, 0]
                > np_mean [0, 0, 0, 0]
                  + snd (currie_formula (np_mean [0, 0, 0, 0]) (fst (0.05, 0.05)) (snd (0.05, 0.05))))"
    using currie_formula_detection_positive [of "0.05" "0.05"]
    by (simp add: np_mean_zeros np_std_zeros)
  from highest_selects_on_global_statistics [OF ne, of currie_formula 3 "(0.05, 0.05)" "Some 3"]
  show ?thesis unfolding if_not_P [OF sel] using ne by blast
qed

text \<open>
  C7 (as amended).  For every non-empty signal, \<open>calculate_limits\<close> fails with the
  ValueError of the method check for every method name outside Automatic, Highest,
  Gaussian, "Gaussian Median" (written with a space) and Poisson, and returns limits for
  every name among these five.
\<close>

theorem calculate_limits_method_check:
  assumes "responses \<noteq> []"
  shows "(name \<notin> {''Automatic'', ''Highest'', ''Gaussian'', ''Gaussian Median'', ''Poisson''}
            \<longrightarrow> calculate_limits formula_c responses name sigma error_rates window
                  = Inl (ValueError method_message))
       \<and> (name \<in> {''Automatic'', ''Highest'', ''Gaussian'', ''Gaussian Median'', ''Poisson''}
            \<longrightarrow> (\<exists>v. calculate_limits formula_c responses name sigma error_rates window = Inr v))"
proof (intro conjI impI)
  assume "name \<notin> {''Automatic'', ''Highest'', ''Gaussian'', ''Gaussian Median'', ''Poisson''}"
  then have "name \<notin> set limit_methods" by (simp add: limit_methods_def)
  with assms show "calculate_limits formula_c responses name sigma error_rates window
                     = Inl (ValueError method_message)"
    by (simp add: calculate_limits_def)
next
  assume "name \<in> {''Automatic'', ''Highest'', ''Gaussian'', ''Gaussian Median'', ''Poisson''}"
  then have "name \<in> set limit_methods" by (simp add: limit_methods_def)
  from calculate_limits_returns [OF assms this]
  show "\<exists>v. calculate_limits formula_c responses name sigma error_rates window = Inr v"
    by blast
qed

theorem calculate_limits_method_check_witness:
  "[1 :: real] \<noteq> []
   \<and> calculate_limits currie_formula [1] ''Median'' 3 (0.05, 0.05) None
       = Inl (ValueError method_message)
   \<and> (\<exists>v. calculate_limits currie_formula [1] ''Gaussian Median'' 3 (0.05, 0.05) None = Inr v)"
proof -
  have ne: "[1 :: real] \<noteq> []" by simp
  from calculate_limits_method_check [OF ne, of "''Median''" currie_formula 3 "(0.05, 0.05)" None]
       calculate_limits_method_check [OF ne, of "''Gaussian Median''" currie_formula 3 "(0.05, 0.05)" None]
  show ?thesis by simp
qed

text \<open>
  The set of names as the specification writes it differs in one name.  "Gaussian-Median",
  with a hyphen, is in the specified set and is refused; "Gaussian Median", with a space,
  is outside the specified set and is accepted.
\<close>

theorem calculate_limits_specified_methods_counterexample:
  "''Gaussian-Median'' \<in> set limit_methods_as_specified
   \<and> calculate_limits currie_formula [1] ''Gaussian-Median'' 3 (0.05, 0.05) None
       = Inl (ValueError method_message)
   \<and> ''Gaussian Median'' \<notin> set limit_methods_as_specified
   \<and> calculate_limits currie_formula [1] ''Gaussian Median'' 3 (0.05, 0.05) None
       = Inr (''Gaussian Median'', [(''??'', 3)], (Float 1, Float 1, Float 1))"
proof -
  have a: "calculate_limits currie_formula [1] ''Gaussian-Median'' 3 (0.05, 0.05) None
             = Inl (ValueError method_message)"
    by (simp add: calculate_limits_def limit_methods_def)
  have m: "np_median [1] = 1" by (simp add: np_median_def)
  have s: "np_std [1] = 0" by (simp add: np_std_def np_mean_def)
  have b: "calculate_limits currie_formula [1] ''Gaussian Median'' 3 (0.05, 0.05) None
             = Inr (''Gaussian Median'', [(''??'', 3)], (Float 1, Float 1, Float 1))"
    by (simp add: calculate_limits_def limit_methods_def resolve_method_def global_limits_def m s)
  show ?thesis using a b by (simp add: limit_methods_as_specified_def)
qed

section \<open>Properties of the calibrated results\<close>

lemma np_amin_Min: "xs \<noteq> [] \<Longrightarrow> np_amin xs = Inr (Min (set xs))"
proof (cases xs)
  case (Cons a list)
  show ?thesis unfolding Cons by (simp only: np_amin.simps Min.set_eq_fold)
qed simp

lemma np_amax_Max: "xs \<noteq> [] \<Longrightarrow> np_amax xs = Inr (Max (set xs))"
proof (cases xs)
  case (Cons a list)
  show ?thesis unfolding Cons by (simp only: np_amax.simps Max.set_eq_fold)
qed simp

lemma summarise_lod_array:
  "xs \<noteq> [] \<Longrightarrow> summarise_lod (NdArray xs) = Inr (NdArray (four_point_summary xs))"
  by (simp add: np_amin_Min np_amax_Max four_point_summary_def)

lemma results_from_mass_response_lod:
  assumes "xs \<noteq> []"
    and "results_from_mass_response detections background (NdArray xs) density massfraction massresponse = Inr r"
  shows "lod r = NdArray (four_point_summary xs)
       \<and> lod_mass r = NdArray (map (\<lambda>v. v * (massresponse / massfraction)) (four_point_summary xs))
       \<and> lod_size r = NdArray (map (\<lambda>v. root 3 (6 / (pi * density) * (v * (massresponse / massfraction))))
                                  (four_point_summary xs))"
  using assms(2)
  unfolding results_from_mass_response_def summarise_lod_array [OF assms(1)]
  by (auto simp: py_div_def particle_size_def comp_def split: sum.splits if_splits)

lemma results_from_mass_response_returns:
  assumes "xs \<noteq> []" and "massfraction \<noteq> 0" and "density \<noteq> 0"
  shows "\<exists>r. results_from_mass_response detections background (NdArray xs) density massfraction massresponse = Inr r"
  using assms(2,3)
  unfolding results_from_mass_response_def summarise_lod_array [OF assms(1)]
  by (simp add: py_div_def particle_size_def)

lemma results_from_nebulisation_efficiency_lod:
  assumes "xs \<noteq> []"
    and "results_from_nebulisation_efficiency detections background (NdArray xs) density dwelltime
           efficiency massfraction uptake response time = Inr r"
  shows "lod r = NdArray (four_point_summary xs)
       \<and> lod_mass r = NdArray (map (\<lambda>v. v * (dwelltime * uptake * efficiency / (response * massfraction)))
                                  (four_point_summary xs))
       \<and> lod_size r = NdArray (map (\<lambda>v. root 3 (6 / (pi * density)
                                      * (v * (dwelltime * uptake * efficiency / (response * massfraction)))))
                                  (four_point_summary xs))"
  using assms(2)
  unfolding results_from_nebulisation_efficiency_def summarise_lod_array [OF assms(1)]
  by (auto simp: py_div_def particle_size_def particle_mass_def particle_number_concentration_def
        particle_total_concentration_def comp_def split: sum.splits if_splits)

lemma results_from_nebulisation_efficiency_returns:
  assumes "xs \<noteq> []" and "response * massfraction \<noteq> 0" and "density \<noteq> 0"
    and "efficiency * uptake * time \<noteq> 0"
  shows "\<exists>r. results_from_nebulisation_efficiency detections background (NdArray xs) density dwelltime
           efficiency massfraction uptake response time = Inr r"
  using assms(2,3,4)
  unfolding results_from_nebulisation_efficiency_def summarise_lod_array [OF assms(1)]
  by (simp add: py_div_def particle_size_def particle_mass_def particle_number_concentration_def
        particle_total_concentration_def)


text \<open>
  C10.  In both result functions a limit of detection given as a non-empty array is
  replaced by the array of its minimum, maximum, mean and median: whenever the function
  returns, its \<open>lod\<close> is these four values, its \<open>lod_mass\<close> is their four masses and its
  \<open>lod_size\<close> their four sizes, whatever the length of the array given; and the function
  does return when no divisor is zero.
\<close>

theorem lod_array_is_summarised:
  assumes "xs \<noteq> []"
  shows "(\<forall>r. results_from_mass_response detections background (NdArray xs) density
                massfraction massresponse = Inr r \<longrightarrow>
              lod r = NdArray (four_point_summary xs)
            \<and> lod_mass r = NdArray (map (\<lambda>v. v * (massresponse / massfraction)) (four_point_summary xs))
            \<and> lod_size r = NdArray (map (\<lambda>v. root 3 (6 / (pi * density) * (v * (massresponse / massfraction))))
                                       (four_point_summary xs)))
       \<and> (\<forall>r. results_from_nebulisation_efficiency detections background (NdArray xs) density
                dwelltime efficiency massfraction uptake response time = Inr r \<longrightarrow>
              lod r = NdArray (four_point_summary xs)
            \<and> lod_mass r = NdArray (map (\<lambda>v. v * (dwelltime * uptake * efficiency / (response * massfraction)))
                                       (four_point_summary xs))
            \<and> lod_size r = NdArray (map (\<lambda>v. root 3 (6 / (pi * density)
                                           * (v * (dwelltime * uptake * efficiency / (response * massfraction)))))
                                       (four_point_summary xs)))
       \<and> (massfraction \<noteq> 0 \<and> density \<noteq> 0 \<longrightarrow>
            (\<exists>r. results_from_mass_response detections background (NdArray xs) density
                   massfraction massresponse = Inr r))
       \<and> (response * massfraction \<noteq> 0 \<and> density \<noteq> 0 \<and> efficiency * uptake * time \<noteq> 0 \<longrightarrow>
            (\<exists>r. results_from_nebulisation_efficiency detections background (NdArray xs) density
                   dwelltime efficiency massfraction uptake response time = Inr r))
       \<and> length (four_point_summary xs) = 4"
proof (intro conjI allI impI)
  show "length (four_point_summary xs) = 4" by (simp add: four_point_summary_def)
qed (use assms in \<open>auto dest: results_from_mass_response_lod results_from_nebulisation_efficiency_lod
        intro: results_from_mass_response_returns results_from_nebulisation_efficiency_returns\<close>)

theorem lod_array_is_summarised_witness:
  "[3, 1, 2 :: real] \<noteq> []
   \<and> (\<exists>r. results_from_mass_response [10] 1 (NdArray [3, 1, 2]) 1 1 2 = Inr r
          \<and> lod r = NdArray [1, 3, 2, 2]
          \<and> lod_mass r = NdArray [2, 6, 4, 4])
   \<and> (\<exists>r. results_from_nebulisation_efficiency [10] 1 (NdArray [3, 1, 2]) 1 1 1 1 2 1 1 = Inr r
          \<and> lod r = NdArray [1, 3, 2, 2]
          \<and> lod_mass r = NdArray [2, 6, 4, 4])"
proof -
  have ne: "[3, 1, 2 :: real] \<noteq> []" by simp
  have s: "four_point_summary [3, 1, 2] = [1, 3, 2, 2]" by code_simp
  note t = lod_array_is_summarised [OF ne, of "[10]" 1 1 1 2 1 1 2 1 1, unfolded s]
  from t obtain r1 where r1: "results_from_mass_response [10] 1 (NdArray [3, 1, 2]) 1 1 2 = Inr r1"
    by auto
  from t obtain r2 where
    r2: "results_from_nebulisation_efficiency [10] 1 (NdArray [3, 1, 2]) 1 1 1 1 2 1 1 = Inr r2"
    by auto
  from t r1 have "lod r1 = NdArray [1, 3, 2, 2] \<and> lod_mass r1 = NdArray [2, 6, 4, 4]" by simp
  moreover from t r2 have "lod r2 = NdArray [1, 3, 2, 2] \<and> lod_mass r2 = NdArray [2, 6, 4, 4]" by simp
  ultimately show ?thesis using ne r1 r2 by blast
qed

section \<open>Properties of ProcessThread.run\<close>

lemma process_one_emits_infile:
  "process_one env cell_kws method_kws infile outfile = (method_kws', Inr signal)
     \<Longrightarrow> emitted_file signal = path_name infile"
  by (auto simp: process_one_def split: sum.splits exn.splits prod.splits)

text \<open>An exception that leaves a pass is not a ValueError.\<close>

lemma process_one_uncaught_is_not_ValueError:
  "process_one env cell_kws method_kws infile outfile = (method_kws', Inl e)
     \<Longrightarrow> e \<noteq> ValueError msg"
  by (auto simp: process_one_def split: sum.splits exn.splits prod.splits)

text \<open>
  The signals are those of the first files of the batch, one for each, in the order of
  the files.
\<close>

lemma run_from_reports_in_order:
  "map emitted_file (fst (run_from env cell_kws i method_kws files))
     = take (length (fst (run_from env cell_kws i method_kws files))) (map (\<lambda>f. path_name (fst f)) files)"
proof (induction files arbitrary: i method_kws)
  case Nil
  show ?case by simp
next
  case (Cons entry files)
  obtain infile outfile where entry: "entry = (infile, outfile)" by (cases entry)
  show ?case
  proof (cases "isInterruptionRequested env i")
    case True
    then show ?thesis by (simp add: entry)
  next
    case False
    obtain method_kws' outcome where
      one: "process_one env cell_kws method_kws infile outfile = (method_kws', outcome)"
      by (cases "process_one env cell_kws method_kws infile outfile")
    show ?thesis
    proof (cases outcome)
      case (Inl e)
      with False one show ?thesis by (simp add: entry)
    next
      case (Inr signal)
      with one have "emitted_file signal = path_name infile" by (auto dest: process_one_emits_infile)
      with False one Inr Cons.IH [of "Suc i" method_kws'] show ?thesis
        by (auto simp: entry split: prod.splits)
    qed
  qed
qed

text \<open>
  When \<^verbatim>\<open>run\<close> returns and no poll has found an interruption requested, every file of the
  batch has its one signal.
\<close>

lemma run_from_returned_reports_all:
  assumes "snd (run_from env cell_kws i method_kws files) = Returned"
    and "\<And>j. \<not> isInterruptionRequested env j"
  shows "map emitted_file (fst (run_from env cell_kws i method_kws files))
           = map (\<lambda>f. path_name (fst f)) files"
  using assms(1)
proof (induction files arbitrary: i method_kws)
  case Nil
  show ?case by simp
next
  case (Cons entry files)
  obtain infile outfile where entry: "entry = (infile, outfile)" by (cases entry)
  obtain method_kws' outcome where
    one: "process_one env cell_kws method_kws infile outfile = (method_kws', outcome)"
    by (cases "process_one env cell_kws method_kws infile outfile")
  show ?case
  proof (cases outcome)
    case (Inl e)
    with one Cons.prems assms(2) show ?thesis by (simp add: entry)
  next
    case (Inr signal)
    with one have s: "emitted_file signal = path_name infile" by (auto dest: process_one_emits_infile)
    from Inr one Cons.prems assms(2)
    have "snd (run_from env cell_kws (Suc i) method_kws' files) = Returned"
      by (simp add: entry split: prod.splits)
    from Cons.IH [OF this] Inr one assms(2) s show ?thesis
      by (auto simp: entry split: prod.splits)
  qed
qed

text \<open>
  C9.  A batch of two files whose keyword dictionary has no dwell time: the product
  \<^verbatim>\<open>results[name]["events"] * self.method_kws[name]["dwelltime"]\<close> raises TypeError for the
  first file, no handler catches it, and \<^verbatim>\<open>run\<close> ends without a signal for the first file
  and without a pass for the second.  With a dwell time and no efficiency the same batch
  gives one signal per file.
\<close>

theorem run_ends_on_missing_dwelltime:
  "run quiet kws_without_dwelltime no_cell_kws [''a.csv'', ''b.csv''] [''a_result.csv'', ''b_result.csv'']
     = ([], Uncaught TypeError)
   \<and> run quiet kws_without_efficiency no_cell_kws [''a.csv'', ''b.csv''] [''a_result.csv'', ''b_result.csv'']
     = ([processComplete ''a.csv'', processComplete ''b.csv''], Returned)"
  by code_simp

text \<open>
  A ValueError of the detection stage is caught: the file gets its failure signal and the
  next file is processed.
\<close>

lemma run_isolates_ValueError:
  "run (quiet\<lparr>process_file_detections :=
               (\<lambda>file. if file = ''a.csv'' then Inl (ValueError ''Unabled to import file'') else Inr gold_results)\<rparr>)
       kws_without_efficiency no_cell_kws [''a.csv'', ''b.csv''] [''a_result.csv'', ''b_result.csv'']
     = ([processFailed ''a.csv'', processComplete ''b.csv''], Returned)"
  by code_simp

end
